theory Spec2Isabelle
  imports Complex_Main "HOL-Library.FSet" "HOL-Library.Multiset"
begin

section \<open>Python strings\<close>

text \<open>
  Text is a list of characters. The character tests below are those of Python's
  \<^verbatim>\<open>str\<close> methods and of the \<^verbatim>\<open>re\<close> classes on ASCII text: a character
  with a code above 127 is taken to be neither whitespace, nor a digit, nor a letter, and
  \<open>lower\<close> leaves it as it is.
\<close>

definition ord_c :: "char \<Rightarrow> nat" where
  "ord_c c = of_char c"

definition newline :: char where
  "newline = CHR 0x0A"

definition isspace :: "char \<Rightarrow> bool" where
  \<comment> \<open>\<^verbatim>\<open>str.isspace\<close>, also the class \<^verbatim>\<open>\s\<close>: tab to carriage return, the four
      separators 28 to 31, and the blank.\<close>
  "isspace c = (let n = ord_c c in (9 \<le> n \<and> n \<le> 13) \<or> (28 \<le> n \<and> n \<le> 32))"

definition is_digit :: "char \<Rightarrow> bool" where
  "is_digit c = (let n = ord_c c in 48 \<le> n \<and> n \<le> 57)"

definition is_AZ :: "char \<Rightarrow> bool" where
  "is_AZ c = (let n = ord_c c in 65 \<le> n \<and> n \<le> 90)"

definition is_az :: "char \<Rightarrow> bool" where
  "is_az c = (let n = ord_c c in 97 \<le> n \<and> n \<le> 122)"

definition is_alpha :: "char \<Rightarrow> bool" where
  "is_alpha c = (is_AZ c \<or> is_az c)"

definition is_word_c :: "char \<Rightarrow> bool" where
  \<comment> \<open>the class \<^verbatim>\<open>\w\<close>\<close>
  "is_word_c c = (is_alpha c \<or> is_digit c \<or> c = CHR ''_'')"

definition lower_c :: "char \<Rightarrow> char" where
  "lower_c c = (if is_AZ c then char_of (ord_c c + 32) else c)"

definition lower :: "string \<Rightarrow> string" where
  "lower s = map lower_c s"

definition strip :: "string \<Rightarrow> string" where
  "strip s = rev (dropWhile isspace (rev (dropWhile isspace s)))"

definition rstrip_chars :: "string \<Rightarrow> string \<Rightarrow> string" where
  \<comment> \<open>\<^verbatim>\<open>s.rstrip(cs)\<close>\<close>
  "rstrip_chars cs s = rev (dropWhile (\<lambda>c. c \<in> set cs) (rev s))"

fun startswith :: "string \<Rightarrow> string \<Rightarrow> bool" where
  "startswith s [] = True"
| "startswith [] (p # ps) = False"
| "startswith (c # cs) (p # ps) = (c = p \<and> startswith cs ps)"

definition endswith :: "string \<Rightarrow> string \<Rightarrow> bool" where
  "endswith s suf = startswith (rev s) (rev suf)"

fun contains :: "string \<Rightarrow> string \<Rightarrow> bool" where
  \<comment> \<open>\<^verbatim>\<open>sub in s\<close>\<close>
  "contains [] sub = (sub = [])"
| "contains (c # cs) sub = (startswith (c # cs) sub \<or> contains cs sub)"

definition isupper :: "string \<Rightarrow> bool" where
  \<comment> \<open>at least one cased character, and no lowercase one\<close>
  "isupper s = (list_ex is_AZ s \<and> \<not> list_ex is_az s)"

fun runs :: "(char \<Rightarrow> bool) \<Rightarrow> string \<Rightarrow> string \<Rightarrow> string list" where
  \<comment> \<open>the maximal runs of characters satisfying \<open>P\<close>, left to right; \<open>cur\<close> is the run
      being read\<close>
  "runs P cur [] = (if cur = [] then [] else [cur])"
| "runs P cur (c # cs) =
     (if P c then runs P (cur @ [c]) cs
      else (if cur = [] then [] else [cur]) @ runs P [] cs)"

definition split_ws :: "string \<Rightarrow> string list" where
  \<comment> \<open>\<^verbatim>\<open>s.split()\<close>\<close>
  "split_ws s = runs (\<lambda>c. \<not> isspace c) [] s"

fun split_on :: "char \<Rightarrow> string \<Rightarrow> string \<Rightarrow> string list" where
  \<comment> \<open>\<^verbatim>\<open>s.split(sep)\<close> for a separator of one character: empty pieces are kept\<close>
  "split_on sep cur [] = [cur]"
| "split_on sep cur (c # cs) =
     (if c = sep then cur # split_on sep [] cs else split_on sep (cur @ [c]) cs)"

definition split_lines :: "string \<Rightarrow> string list" where
  \<comment> \<open>\<^verbatim>\<open>s.split('\n')\<close>\<close>
  "split_lines s = split_on newline [] s"

fun join :: "string \<Rightarrow> string list \<Rightarrow> string" where
  "join sep [] = []"
| "join sep [x] = x"
| "join sep (x # y # ys) = x @ sep @ join sep (y # ys)"

section \<open>The Section Segmenter (\<^verbatim>\<open>StructureExtractor\<close>)\<close>

record raw_section =
  sec_text :: string
  sec_page :: int

record heading =
  h_level :: string
  h_text :: string
  h_page :: int

definition sp_upper3 :: "string \<Rightarrow> bool" where
  \<comment> \<open>a blank, then \<^verbatim>\<open>[A-Z]{3,}\<close>\<close>
  "sp_upper3 r =
     (case r of
        [] \<Rightarrow> False
      | c # r' \<Rightarrow> c = CHR '' '' \<and> 3 \<le> length r' \<and> list_all is_AZ (take 3 r'))"

definition date_like :: "string \<Rightarrow> bool" where
  \<comment> \<open>\<^verbatim>\<open>\d{1,2} [A-Z]{3,}\<close> at the start of the text\<close>
  "date_like s =
     (case s of
        [] \<Rightarrow> False
      | d1 # r1 \<Rightarrow>
          is_digit d1 \<and>
          ((case r1 of [] \<Rightarrow> False | d2 # r2 \<Rightarrow> is_digit d2 \<and> sp_upper3 r2) \<or> sp_upper3 r1))"

definition noise_prefixes :: "string list" where
  "noise_prefixes = [''page'', ''figure'', ''table'', ''ref'', ''www.'', ''http'']"

definition noise_match :: "string \<Rightarrow> bool" where
  \<comment> \<open>\<^verbatim>\<open>re.match(r'^(page|figure|table|ref|www\.|http|\d{1,2} [A-Z]{3,})', s)\<close>\<close>
  "noise_match s = (list_ex (startswith s) noise_prefixes \<or> date_like s)"

definition high :: "string list" where
  "high = [''revision history'', ''table of contents'', ''acknowledgements'',
           ''introduction'', ''overview'', ''syllabus'']"

definition calculate_importance :: "string \<Rightarrow> nat" where
  "calculate_importance t =
     (let text_lower = lower t in
      if list_ex (contains text_lower) high then 2
      else if endswith t '':'' \<and> length (split_ws t) \<le> 8 then 1
      else if isupper t \<and> 5 < length t \<and> length t < 60 then 1
      else 0)"

definition determine_level :: "string \<Rightarrow> string" where
  "determine_level t =
     (let text_lower = lower t in
      if list_ex (contains text_lower) [''overview of'', ''introduction to'', ''references'']
      then ''H1''
      else if endswith t '':'' \<and> length (split_ws t) \<le> 8 then ''H2''
      else ''H2'')"

fun refine_loop :: "string set \<Rightarrow> heading list \<Rightarrow> raw_section list \<Rightarrow> heading list" where
  "refine_loop seen cleaned [] = cleaned"
| "refine_loop seen cleaned (sec # secs) =
     (let t = strip (sec_text sec) in
      if t \<in> seen \<or> \<not> (3 \<le> length t \<and> length t \<le> 150) then refine_loop seen cleaned secs
      else if noise_match (lower t) then refine_loop seen cleaned secs
      else if calculate_importance t = 0 then refine_loop seen cleaned secs
      else refine_loop (insert t seen)
             (cleaned @ [\<lparr>h_level = determine_level t, h_text = t, h_page = sec_page sec\<rparr>])
             secs)"

definition refine_sections :: "raw_section list \<Rightarrow> heading list" where
  "refine_sections sections = refine_loop {} [] sections"

fun fallback_loop :: "string list \<Rightarrow> heading list" where
  "fallback_loop [] = []"
| "fallback_loop (l # ls) =
     (let line = strip l in
      if endswith line '':'' \<and> length (split_ws line) \<le> 8
      then \<lparr>h_level = ''H2'', h_text = rstrip_chars '':'' line, h_page = 1\<rparr> # fallback_loop ls
      else fallback_loop ls)"

definition fallback_extract_labels :: "string \<Rightarrow> heading list" where
  "fallback_extract_labels txt = fallback_loop (split_lines txt)"

section \<open>The external loader (\<^verbatim>\<open>PDFProcessor\<close>)\<close>

text \<open>
  The loader's source is not part of this development. The pipelines take it as a
  parameter: a record of its operations over an unknown state \<open>'p\<close>, with the signatures
  the pipelines rely on. Loading replaces the state; the queries read it. The query for a
  page's text is the one whose argument the pipelines compute, and it may raise.
\<close>

datatype exn = LoaderError

record 'p pdf_processor =
  load_pdf :: "string \<Rightarrow> 'p \<Rightarrow> bool \<times> 'p"
  page_count :: "'p \<Rightarrow> int"
  extract_page_text :: "int \<Rightarrow> 'p \<Rightarrow> exn + string"
  extract_all_text :: "'p \<Rightarrow> string"
  extract_sections_by_formatting :: "'p \<Rightarrow> raw_section list"
  get_document_info :: "'p \<Rightarrow> (string \<rightharpoonup> string)"
  find_title_candidates :: "'p \<Rightarrow> (string \<times> real) list"
  close :: "'p \<Rightarrow> 'p"

section \<open>Title resolution and the Outline Pipeline\<close>

definition title_skip_prefixes :: "string list" where
  "title_skip_prefixes =
     [''page'', ''abstract'', ''introduction'', ''table of contents'', ''www.'', ''http'']"

definition promo_words :: "string list" where
  "promo_words = [''challenge'', ''connecting'', ''dots'', ''hackathon'']"

fun title_loop :: "nat \<Rightarrow> string list \<Rightarrow> (string \<times> int) list" where
  \<comment> \<open>the loop over \<^verbatim>\<open>enumerate(lines[:15])\<close>, from index \<open>i\<close>\<close>
  "title_loop i [] = []"
| "title_loop i (line # ls) =
     (if list_ex (startswith (lower line)) title_skip_prefixes then title_loop (Suc i) ls
      else
        (line,
         (if list_ex (contains (lower line)) promo_words then 3 else 0)
         + (if i < 5 then 2 else 0)
         + (if 10 \<le> length line \<and> length line \<le> 100 then 1 else 0))
        # title_loop (Suc i) ls)"

definition extract_title_from_text :: "string \<Rightarrow> string" where
  "extract_title_from_text txt =
     (let lines = map strip (filter (\<lambda>l. 5 < length (strip l) \<and> length (strip l) < 200)
                                    (split_lines txt));
          candidates = title_loop 0 (take 15 lines)
      in case sort_key (\<lambda>x. - snd x) candidates of
           [] \<Rightarrow> []
         | c # _ \<Rightarrow> fst c)"

definition extract_title :: "'p pdf_processor \<Rightarrow> 'p \<Rightarrow> heading list \<Rightarrow> exn + string" where
  "extract_title api s outline =
     (let doc_info = get_document_info api s;
          metadata_title = strip (case doc_info ''title'' of None \<Rightarrow> [] | Some t \<Rightarrow> t)
      in if metadata_title \<noteq> [] \<and> 3 < length metadata_title then Inr metadata_title
         else
           let candidates = find_title_candidates api s
           in if candidates \<noteq> [] then Inr (join ''  '' (map fst (take 2 candidates)))
              else
                case extract_page_text api 0 s of
                  Inl e \<Rightarrow> Inl e
                | Inr first_page_text \<Rightarrow>
                    let title_from_text = extract_title_from_text first_page_text
                    in if title_from_text \<noteq> [] then Inr title_from_text
                       else
                         case outline of
                           h # _ \<Rightarrow> Inr (h_text h)
                         | [] \<Rightarrow> Inr ''Untitled Document'')"

record doc_structure =
  r_title :: string
  r_outline :: "heading list"
  r_error :: "string option"

definition extract_structure ::
  "'p pdf_processor \<Rightarrow> string \<Rightarrow> 'p \<Rightarrow> (exn + doc_structure) \<times> 'p" where
  "extract_structure api pdf_path s =
     (case load_pdf api pdf_path s of
        (ok, s1) \<Rightarrow>
          if \<not> ok
          then (Inr \<lparr>r_title = ''Error'', r_outline = [], r_error = Some ''Failed to load PDF''\<rparr>, s1)
          else
            let sections = extract_sections_by_formatting api s1;
                refined = refine_sections sections;
                outline0 = map (\<lambda>h. \<lparr>h_level = h_level h, h_text = h_text h, h_page = h_page h\<rparr>)
                             refined
            in case (if outline0 = []
                     then (case extract_page_text api 0 s1 of
                             Inl e \<Rightarrow> Inl e
                           | Inr first_page_text \<Rightarrow> Inr (fallback_extract_labels first_page_text))
                     else Inr outline0) of
                 Inl e \<Rightarrow> (Inl e, s1)
               | Inr outline \<Rightarrow>
                   (case extract_title api s1 outline of
                      Inl e \<Rightarrow> (Inl e, s1)
                    | Inr t \<Rightarrow>
                        (Inr \<lparr>r_title = t, r_outline = outline, r_error = None\<rparr>, close api s1)))"

section \<open>The Relevance Pipeline (\<^verbatim>\<open>PersonaAnalyzer\<close>)\<close>

subsection \<open>Section content expansion\<close>

definition numbered :: "string \<Rightarrow> bool" where
  \<comment> \<open>\<^verbatim>\<open>re.match(r'^\d+\.?\s+[A-Z]', s)\<close>\<close>
  "numbered s =
     (let r1 = dropWhile is_digit s;
          r2 = (case r1 of [] \<Rightarrow> r1 | c # r \<Rightarrow> if c = CHR ''.'' then r else r1);
          r3 = dropWhile isspace r2
      in length r1 < length s \<and> length r3 < length r2 \<and>
         (case r3 of [] \<Rightarrow> False | c # _ \<Rightarrow> is_AZ c))"

definition all_caps :: "string \<Rightarrow> bool" where
  \<comment> \<open>\<^verbatim>\<open>re.match(r'^[A-Z][A-Z\s]+$', s)\<close>\<close>
  "all_caps s =
     (case s of
        [] \<Rightarrow> False
      | c # r \<Rightarrow> is_AZ c \<and> r \<noteq> [] \<and> list_all (\<lambda>d. is_AZ d \<or> isspace d) r)"

datatype tc_state = Start | Cap | Low | Sp

fun tc :: "tc_state \<Rightarrow> string \<Rightarrow> bool" where
  \<comment> \<open>the automaton of \<^verbatim>\<open>[A-Z][a-z]+(?:\s+[A-Z][a-z]+)*$\<close>; the \<^verbatim>\<open>$\<close> also holds
      before one final newline\<close>
  "tc st [] = (st = Low)"
| "tc Start (c # cs) = (is_AZ c \<and> tc Cap cs)"
| "tc Cap (c # cs) = (is_az c \<and> tc Low cs)"
| "tc Low (c # cs) =
     (if is_az c then tc Low cs
      else if isspace c then (c = newline \<and> cs = []) \<or> tc Sp cs
      else False)"
| "tc Sp (c # cs) = (if isspace c then tc Sp cs else is_AZ c \<and> tc Cap cs)"

definition title_case :: "string \<Rightarrow> bool" where
  \<comment> \<open>\<^verbatim>\<open>re.match(r'^[A-Z][a-z]+(?:\s+[A-Z][a-z]+)*$', s)\<close>\<close>
  "title_case s = tc Start s"

definition looks_like_heading :: "string \<Rightarrow> bool" where
  "looks_like_heading t =
     (if length t < 3 \<or> 150 < length t then False
      else numbered t \<or> all_caps t \<or> title_case t)"

fun find_start :: "string \<Rightarrow> nat \<Rightarrow> string list \<Rightarrow> nat option" where
  \<comment> \<open>the first loop of \<^verbatim>\<open>_extract_section_content\<close>; \<open>None\<close> is its \<^verbatim>\<open>-1\<close>\<close>
  "find_start title i [] = None"
| "find_start title i (line # ls) =
     (if contains (lower line) (lower title) then Some i else find_start title (Suc i) ls)"

fun find_end :: "nat \<Rightarrow> string list \<Rightarrow> nat option" where
  \<comment> \<open>the second loop, over the lines from index \<open>i\<close> on; \<open>None\<close> when it does not break\<close>
  "find_end i [] = None"
| "find_end i (l # ls) =
     (let line = strip l in
      if 3 < length line \<and> looks_like_heading line then Some i else find_end (Suc i) ls)"

definition extract_section_content :: "string \<Rightarrow> string \<Rightarrow> string" where
  "extract_section_content page_text section_title =
     (let lines = split_lines page_text in
      case find_start section_title 0 lines of
        None \<Rightarrow> []
      | Some start_line \<Rightarrow>
          let end_line = (case find_end (start_line + 1) (drop (start_line + 1) lines) of
                            None \<Rightarrow> length lines
                          | Some i \<Rightarrow> i);
              content_lines = take (end_line - (start_line + 1)) (drop (start_line + 1) lines)
          in strip (join [newline] content_lines))"

subsection \<open>Document contents\<close>

record enriched_section = raw_section +
  sec_content :: "string option"

record doc_content =
  full_text :: string
  c_sections :: "enriched_section list"
  page_texts :: "(int \<times> string) list"

record document =
  filename :: string
  d_title :: string
  d_outline :: "heading list"
  d_content :: doc_content

fun mapM_exn :: "('a \<Rightarrow> exn + 'b) \<Rightarrow> 'a list \<Rightarrow> exn + 'b list" where
  \<comment> \<open>a loop whose body may raise: the first exception ends it\<close>
  "mapM_exn f [] = Inr []"
| "mapM_exn f (x # xs) =
     (case f x of
        Inl e \<Rightarrow> Inl e
      | Inr y \<Rightarrow> (case mapM_exn f xs of Inl e \<Rightarrow> Inl e | Inr ys \<Rightarrow> Inr (y # ys)))"

definition enrich_section :: "'p pdf_processor \<Rightarrow> 'p \<Rightarrow> raw_section \<Rightarrow> exn + enriched_section" where
  "enrich_section api s section =
     (let page_num = sec_page section - 1 in
      if page_num < page_count api s
      then (case extract_page_text api page_num s of
              Inl e \<Rightarrow> Inl e
            | Inr page_text \<Rightarrow>
                Inr \<lparr>sec_text = sec_text section, sec_page = sec_page section,
                     sec_content = Some (extract_section_content page_text (sec_text section))\<rparr>)
      else Inr \<lparr>sec_text = sec_text section, sec_page = sec_page section, sec_content = None\<rparr>)"

definition enrich_sections ::
  "'p pdf_processor \<Rightarrow> 'p \<Rightarrow> raw_section list \<Rightarrow> exn + enriched_section list" where
  "enrich_sections api s sections = mapM_exn (enrich_section api s) sections"

definition extract_detailed_content :: "'p pdf_processor \<Rightarrow> 'p \<Rightarrow> exn + doc_content" where
  "extract_detailed_content api s =
     (let full = extract_all_text api s in
      case mapM_exn (\<lambda>page_num. case extract_page_text api page_num s of
                                   Inl e \<Rightarrow> Inl e
                                 | Inr page_text \<Rightarrow> Inr (page_num + 1, page_text))
                    (map int [0..<nat (page_count api s)]) of
        Inl e \<Rightarrow> Inl e
      | Inr pts \<Rightarrow>
          (case enrich_sections api s (extract_sections_by_formatting api s) of
             Inl e \<Rightarrow> Inl e
           | Inr secs \<Rightarrow> Inr \<lparr>full_text = full, c_sections = secs, page_texts = pts\<rparr>))"

definition path_name :: "string \<Rightarrow> string" where
  \<comment> \<open>\<^verbatim>\<open>Path.name\<close>: the last component of the path\<close>
  "path_name p = last (split_on CHR ''/'' [] p)"

fun extract_document_contents_loop ::
  "'p pdf_processor \<Rightarrow> document list \<Rightarrow> string list \<Rightarrow> 'p \<times> 'p \<Rightarrow> document list \<times> 'p \<times> 'p" where
  \<comment> \<open>the state is the analyzer's own processor and the extractor's; a raised exception
      is caught and the loop goes on\<close>
  "extract_document_contents_loop api documents [] st = (documents, st)"
| "extract_document_contents_loop api documents (pdf_file # rest) (p, q) =
     (case load_pdf api pdf_file p of
        (ok, p1) \<Rightarrow>
          if \<not> ok then extract_document_contents_loop api documents rest (p1, q)
          else
            (case extract_structure api pdf_file q of
               (Inl e, q1) \<Rightarrow> extract_document_contents_loop api documents rest (p1, q1)
             | (Inr struct, q1) \<Rightarrow>
                 (case extract_detailed_content api p1 of
                    Inl e \<Rightarrow> extract_document_contents_loop api documents rest (p1, q1)
                  | Inr content \<Rightarrow>
                      extract_document_contents_loop api
                        (documents @
                         [\<lparr>filename = path_name pdf_file, d_title = r_title struct,
                           d_outline = r_outline struct, d_content = content\<rparr>])
                        rest (close api p1, q1))))"

definition extract_document_contents ::
  "'p pdf_processor \<Rightarrow> string list \<Rightarrow> 'p \<times> 'p \<Rightarrow> document list \<times> 'p \<times> 'p" where
  "extract_document_contents api pdf_files st = extract_document_contents_loop api [] pdf_files st"

subsection \<open>Keywords and the relevance score\<close>

text \<open>
  Python's floats are modelled as real numbers: the score is computed exactly, without
  rounding.
\<close>

definition stop_words :: "string list" where
  "stop_words =
     [''the'', ''and'', ''for'', ''are'', ''but'', ''not'', ''you'', ''all'', ''can'', ''had'',
      ''her'', ''was'', ''one'', ''our'', ''out'', ''day'', ''get'', ''has'', ''him'', ''his'',
      ''how'', ''man'', ''new'', ''now'', ''old'', ''see'', ''two'', ''way'', ''who'', ''boy'',
      ''did'', ''its'', ''let'', ''put'', ''say'', ''she'', ''too'', ''use'', ''with'', ''have'',
      ''this'', ''will'', ''your'', ''from'', ''they'', ''know'', ''want'', ''been'', ''good'',
      ''much'', ''some'', ''time'', ''very'', ''when'', ''come'', ''here'', ''just'', ''like'',
      ''long'', ''make'', ''many'', ''over'', ''such'', ''take'', ''than'', ''them'', ''well'',
      ''were'']"

definition findall_words :: "string \<Rightarrow> string list" where
  \<comment> \<open>\<^verbatim>\<open>re.findall(r'\b[a-zA-Z]{3,}\b', s)\<close>: a match starts and ends at a word boundary,
      so it is a maximal run of word characters, all of them letters, three or more\<close>
  "findall_words s = filter (\<lambda>w. list_all is_alpha w \<and> 3 \<le> length w) (runs is_word_c [] s)"

definition extract_keywords :: "string \<Rightarrow> string fset" where
  "extract_keywords txt =
     (let words = findall_words (lower txt)
      in fset_of_list (filter (\<lambda>word. word \<notin> set stop_words) words))"

definition research_terms :: "string list" where
  "research_terms =
     [''methodology'', ''analysis'', ''results'', ''conclusion'', ''abstract'',
      ''literature'', ''experiment'', ''data'', ''findings'', ''hypothesis'']"

definition business_terms :: "string list" where
  "business_terms =
     [''revenue'', ''profit'', ''growth'', ''market'', ''financial'', ''strategy'',
      ''competitive'', ''performance'', ''roi'', ''analysis'']"

definition educational_terms :: "string list" where
  "educational_terms =
     [''concept'', ''principle'', ''theory'', ''example'', ''definition'',
      ''explanation'', ''practice'', ''exercise'', ''summary'']"

definition category_bonus :: "string \<Rightarrow> string list \<Rightarrow> string list \<Rightarrow> string \<Rightarrow> real" where
  \<comment> \<open>one \<^verbatim>\<open>if any(...): matches = sum(...); bonus += matches * 0.05\<close> block\<close>
  "category_bonus persona triggers terms txt =
     (if list_ex (contains (lower persona)) triggers
      then real (length (filter (contains txt) terms)) * 5 / 100
      else 0)"

definition get_domain_bonuses :: "string \<Rightarrow> string \<Rightarrow> real" where
  "get_domain_bonuses persona txt =
     (let bonus = 0;
          bonus = bonus + category_bonus persona
                    [''researcher'', ''phd'', ''academic'', ''student''] research_terms txt;
          bonus = bonus + category_bonus persona
                    [''analyst'', ''investment'', ''business''] business_terms txt;
          bonus = bonus + category_bonus persona
                    [''student'', ''learner'', ''education''] educational_terms txt
      in min bonus (3 / 10))"

definition calculate_relevance_score ::
  "string \<Rightarrow> enriched_section \<Rightarrow> string fset \<Rightarrow> string fset \<Rightarrow> real" where
  "calculate_relevance_score persona section persona_keywords job_keywords =
     (let section_text = lower (sec_text section);
          section_content = lower (case sec_content section of None \<Rightarrow> [] | Some c \<Rightarrow> c);
          combined_text = section_text @ '' '' @ section_content;
          section_keywords = extract_keywords combined_text;
          persona_overlap = fcard (persona_keywords |\<inter>| section_keywords);
          persona_score = real persona_overlap / real (max (fcard persona_keywords) 1);
          job_overlap = fcard (job_keywords |\<inter>| section_keywords);
          job_score = real job_overlap / real (max (fcard job_keywords) 1);
          score = 6 / 10 * job_score + 4 / 10 * persona_score;
          score = score + get_domain_bonuses persona combined_text
      in min score 1)"

subsection \<open>The cross-document ranker\<close>

record ranked_section =
  rs_document :: string
  rs_page :: int
  section_title :: string
  importance_rank :: real

fun score_sections ::
  "string \<Rightarrow> string fset \<Rightarrow> string fset \<Rightarrow> string \<Rightarrow> enriched_section list \<Rightarrow> ranked_section list" where
  \<comment> \<open>the inner loop, over the sections of the document called \<open>fname\<close>\<close>
  "score_sections persona pk jk fname [] = []"
| "score_sections persona pk jk fname (section # rest) =
     (let relevance_score = calculate_relevance_score persona section pk jk in
      if 1 / 10 < relevance_score
      then \<lparr>rs_document = fname, rs_page = sec_page section, section_title = sec_text section,
            importance_rank = relevance_score\<rparr> # score_sections persona pk jk fname rest
      else score_sections persona pk jk fname rest)"

fun collect_sections ::
  "string \<Rightarrow> string fset \<Rightarrow> string fset \<Rightarrow> document list \<Rightarrow> ranked_section list" where
  \<comment> \<open>the outer loop: \<^verbatim>\<open>relevant_sections\<close> before it is sorted\<close>
  "collect_sections persona pk jk [] = []"
| "collect_sections persona pk jk (doc # docs) =
     score_sections persona pk jk (filename doc) (c_sections (d_content doc))
     @ collect_sections persona pk jk docs"

definition sort_by_rank_desc :: "ranked_section list \<Rightarrow> ranked_section list" where
  \<comment> \<open>\<^verbatim>\<open>sort(key=..., reverse=True)\<close>: stable, equal keys keep their order\<close>
  "sort_by_rank_desc xs = sort_key (\<lambda>x. - importance_rank x) xs"

fun add_rank_numbers :: "nat \<Rightarrow> ranked_section list \<Rightarrow> ranked_section list" where
  \<comment> \<open>the loop over \<^verbatim>\<open>enumerate(relevant_sections)\<close>, from index \<open>i\<close>\<close>
  "add_rank_numbers i [] = []"
| "add_rank_numbers i (section # rest) =
     section\<lparr>importance_rank := real (i + 1)\<rparr> # add_rank_numbers (Suc i) rest"

definition extract_relevant_sections ::
  "string \<Rightarrow> string \<Rightarrow> document list \<Rightarrow> ranked_section list" where
  "extract_relevant_sections persona job_to_be_done documents =
     (let persona_keywords = extract_keywords persona;
          job_keywords = extract_keywords job_to_be_done;
          relevant_sections = collect_sections persona persona_keywords job_keywords documents
      in add_rank_numbers 0 (sort_by_rank_desc relevant_sections))"

subsection \<open>Subsection analysis and the analysis result\<close>

record sub_analysis =
  ss_document :: string
  ss_page :: int
  ss_section_title :: string
  refined_text :: string
  relevance_score :: real

definition refine_section_content :: "string \<Rightarrow> string \<Rightarrow> ranked_section \<Rightarrow> string" where
  "refine_section_content persona job_to_be_done section =
     ''Key insights from '' @ section_title section @ '' relevant to '' @ persona
     @ '' for '' @ job_to_be_done"

definition analyze_subsections ::
  "string \<Rightarrow> string \<Rightarrow> ranked_section list \<Rightarrow> sub_analysis list" where
  "analyze_subsections persona job_to_be_done relevant_sections =
     map (\<lambda>section.
            \<lparr>ss_document = rs_document section, ss_page = rs_page section,
             ss_section_title = section_title section,
             refined_text = refine_section_content persona job_to_be_done section,
             relevance_score = importance_rank section\<rparr>)
         (take 10 relevant_sections)"

record analysis =
  md_documents :: "string list"
  md_persona :: string
  md_job_to_be_done :: string
  md_timestamp :: string
  extracted_sections :: "ranked_section list"
  subsection_analysis :: "sub_analysis list"

definition analyze_documents ::
  "'p pdf_processor \<Rightarrow> string \<Rightarrow> string list \<Rightarrow> (string \<rightharpoonup> string) \<Rightarrow> 'p \<times> 'p \<Rightarrow> analysis" where
  \<comment> \<open>\<open>now\<close> is what \<^verbatim>\<open>time.strftime\<close> returns\<close>
  "analyze_documents api now pdf_files config st =
     (let persona = (case config ''persona'' of None \<Rightarrow> [] | Some v \<Rightarrow> v);
          job_to_be_done = (case config ''job_to_be_done'' of None \<Rightarrow> [] | Some v \<Rightarrow> v);
          document_contents = fst (extract_document_contents api pdf_files st);
          relevant_sections = extract_relevant_sections persona job_to_be_done document_contents;
          subs = analyze_subsections persona job_to_be_done relevant_sections
      in \<lparr>md_documents = map path_name pdf_files, md_persona = persona,
          md_job_to_be_done = job_to_be_done, md_timestamp = now,
          extracted_sections = relevant_sections, subsection_analysis = subs\<rparr>)"

section \<open>A table-backed loader and example documents\<close>

text \<open>
  A concrete loader for evaluating the pipelines: the documents are held in a table by
  path, loading a path that is in the table makes its document the current one, and
  asking for a page outside the document raises.
\<close>

record pdf_doc =
  doc_pages :: "string list"
  doc_sections :: "raw_section list"
  doc_info :: "string \<rightharpoonup> string"
  doc_title_candidates :: "(string \<times> real) list"

definition table_processor :: "(string \<rightharpoonup> pdf_doc) \<Rightarrow> pdf_doc option pdf_processor" where
  "table_processor files =
     \<lparr>load_pdf = (\<lambda>path s. case files path of None \<Rightarrow> (False, s) | Some d \<Rightarrow> (True, Some d)),
      page_count = (\<lambda>s. case s of None \<Rightarrow> 0 | Some d \<Rightarrow> int (length (doc_pages d))),
      extract_page_text =
        (\<lambda>i s. case s of
                  None \<Rightarrow> Inl LoaderError
                | Some d \<Rightarrow>
                    if 0 \<le> i \<and> i < int (length (doc_pages d)) then Inr (doc_pages d ! nat i)
                    else Inl LoaderError),
      extract_all_text = (\<lambda>s. case s of None \<Rightarrow> [] | Some d \<Rightarrow> concat (doc_pages d)),
      extract_sections_by_formatting = (\<lambda>s. case s of None \<Rightarrow> [] | Some d \<Rightarrow> doc_sections d),
      get_document_info = (\<lambda>s. case s of None \<Rightarrow> Map.empty | Some d \<Rightarrow> doc_info d),
      find_title_candidates = (\<lambda>s. case s of None \<Rightarrow> [] | Some d \<Rightarrow> doc_title_candidates d),
      close = (\<lambda>s. None)\<rparr>"

definition report_doc :: pdf_doc where
  "report_doc =
     \<lparr>doc_pages = [''Quarterly Report 2024\<newline>OVERVIEW\<newline>Revenue grew''],
      doc_sections = [\<lparr>sec_text = ''OVERVIEW'', sec_page = 1\<rparr>,
                      \<lparr>sec_text = '' OVERVIEW '', sec_page = 1\<rparr>,
                      \<lparr>sec_text = ''Page 2'', sec_page = 1\<rparr>,
                      \<lparr>sec_text = ''Name:'', sec_page = 1\<rparr>],
      doc_info = [''title'' \<mapsto> []],
      doc_title_candidates = []\<rparr>"

definition form_doc :: pdf_doc where
  "form_doc =
     \<lparr>doc_pages = [''ID:\<newline>ID:''],
      doc_sections = [],
      doc_info = Map.empty,
      doc_title_candidates = []\<rparr>"

definition syllabus_doc :: pdf_doc where
  "syllabus_doc =
     \<lparr>doc_pages = [''Page 1\<newline>text''],
      doc_sections = [\<lparr>sec_text = ''SYLLABUS'', sec_page = 1\<rparr>],
      doc_info = [''title'' \<mapsto> []],
      doc_title_candidates = []\<rparr>"

definition noisy_doc :: pdf_doc where
  "noisy_doc =
     \<lparr>doc_pages = [''Page data\<newline>some text''],
      doc_sections = [\<lparr>sec_text = ''Page data'', sec_page = 1\<rparr>],
      doc_info = Map.empty,
      doc_title_candidates = []\<rparr>"

definition blank_doc :: pdf_doc where
  \<comment> \<open>no page at all: asking for the first page raises\<close>
  "blank_doc =
     \<lparr>doc_pages = [],
      doc_sections = [],
      doc_info = Map.empty,
      doc_title_candidates = []\<rparr>"

definition badpage_doc :: pdf_doc where
  \<comment> \<open>a candidate on page 0: its page index is \<open>-1\<close>, which raises\<close>
  "badpage_doc =
     \<lparr>doc_pages = [''Annual Review\<newline>OVERVIEW''],
      doc_sections = [\<lparr>sec_text = ''OVERVIEW'', sec_page = 0\<rparr>],
      doc_info = Map.empty,
      doc_title_candidates = []\<rparr>"

definition example_files :: "string \<rightharpoonup> pdf_doc" where
  "example_files =
     [''input/report.pdf'' \<mapsto> report_doc, ''input/form.pdf'' \<mapsto> form_doc,
      ''input/syllabus.pdf'' \<mapsto> syllabus_doc, ''input/noisy.pdf'' \<mapsto> noisy_doc,
      ''input/blank.pdf'' \<mapsto> blank_doc, ''input/badpage.pdf'' \<mapsto> badpage_doc]"

definition example_api :: "pdf_doc option pdf_processor" where
  "example_api = table_processor example_files"

section \<open>Evaluation rules\<close>

lemmas char_defs = ord_c_def newline_def isspace_def is_digit_def is_AZ_def is_az_def is_alpha_def
  is_word_c_def lower_c_def char_of_eq_iff

lemmas str_defs = lower_def strip_def rstrip_chars_def endswith_def isupper_def split_ws_def
  split_lines_def

lemmas seg_defs = sp_upper3_def date_like_def noise_prefixes_def noise_match_def high_def
  calculate_importance_def determine_level_def refine_sections_def fallback_extract_labels_def

lemmas api_defs = example_api_def table_processor_def example_files_def report_doc_def form_doc_def
  syllabus_doc_def noisy_doc_def blank_doc_def badpage_doc_def

lemmas title_defs = title_skip_prefixes_def promo_words_def extract_title_from_text_def
  extract_title_def extract_structure_def

lemmas span_defs = numbered_def all_caps_def title_case_def looks_like_heading_def
  extract_section_content_def

lemmas doc_defs = enrich_section_def enrich_sections_def extract_detailed_content_def path_name_def
  extract_document_contents_def

lemmas rank_defs = stop_words_def findall_words_def extract_keywords_def research_terms_def
  business_terms_def educational_terms_def category_bonus_def get_domain_bonuses_def
  calculate_relevance_score_def sort_by_rank_desc_def extract_relevant_sections_def
  refine_section_content_def analyze_subsections_def analyze_documents_def

section \<open>The noise filter\<close>

lemma not_AZ_lower_c: "\<not> is_AZ (lower_c c)"
  by (auto simp: lower_c_def is_AZ_def ord_c_def Let_def)

lemma not_sp_upper3_lower: "\<not> sp_upper3 (map lower_c r)"
proof (cases r)
  case Nil
  then show ?thesis by (simp add: sp_upper3_def)
next
  case (Cons c r')
  show ?thesis
  proof (cases r')
    case Nil
    with Cons show ?thesis by (simp add: sp_upper3_def)
  next
    case (Cons a r'')
    with \<open>r = c # r'\<close> show ?thesis
      by (simp add: sp_upper3_def numeral_3_eq_3 not_AZ_lower_c)
  qed
qed

text \<open>
  The date alternative of the noise pattern asks for uppercase letters, and the pattern is
  matched against the lowercased text: it matches no text at all.
\<close>

lemma date_like_lower: "\<not> date_like (lower t)"
proof (cases t)
  case Nil
  then show ?thesis by (simp add: date_like_def lower_def)
next
  case (Cons d1 r1)
  have a: "\<not> sp_upper3 (map lower_c r1)"
    by (rule not_sp_upper3_lower)
  have b: "\<not> (case map lower_c r1 of [] \<Rightarrow> False | d2 # r2 \<Rightarrow> is_digit d2 \<and> sp_upper3 r2)"
  proof (cases r1)
    case Nil
    then show ?thesis by simp
  next
    case (Cons d2 r2)
    then show ?thesis using not_sp_upper3_lower [of r2] by simp
  qed
  show ?thesis using a b Cons by (simp add: date_like_def lower_def)
qed

text \<open>
  A candidate whose trimmed, lowercased text starts with one of the noise prefixes is
  skipped.
\<close>

lemma noise_prefix_rejected:
  "list_ex (startswith (lower (strip (sec_text sec)))) noise_prefixes \<Longrightarrow>
   refine_loop seen cleaned (sec # secs) = refine_loop seen cleaned secs"
  by (simp add: Let_def noise_match_def)

text \<open>
  Claim C5 says that a candidate whose text matches one or two digits, a blank and three
  or more uppercase letters is rejected by the Segmenter, as one starting with a noise
  prefix is. The text \<open>12 JAN\<close> matches that pattern, and the Segmenter emits a
  heading for it, of level H2.
\<close>

theorem date_noise_not_rejected:
  "date_like ''12 JAN'' \<and>
   refine_sections [\<lparr>sec_text = ''12 JAN'', sec_page = 1\<rparr>]
     = [\<lparr>h_level = ''H2'', h_text = ''12 JAN'', h_page = 1\<rparr>]"
  by (simp add: char_defs str_defs seg_defs)

section \<open>Form labels\<close>

text \<open>
  Claim C6 as stated fails: the text \<open>Overview of X:\<close> is trimmed, passes the length
  and noise filters, ends with a colon and has three words, and its level is H1.
\<close>

theorem label_level_counterexample:
  "strip ''Overview of X:'' = ''Overview of X:'' \<and>
   3 \<le> length ''Overview of X:'' \<and> length ''Overview of X:'' \<le> 150 \<and>
   \<not> noise_match (lower ''Overview of X:'') \<and>
   endswith ''Overview of X:'' '':'' \<and> length (split_ws ''Overview of X:'') \<le> 8 \<and>
   determine_level ''Overview of X:'' = ''H1'' \<and> determine_level ''Overview of X:'' \<noteq> ''H2'' \<and>
   refine_sections [\<lparr>sec_text = ''Overview of X:'', sec_page = 1\<rparr>]
     = [\<lparr>h_level = ''H1'', h_text = ''Overview of X:'', h_page = 1\<rparr>]"
  by (simp add: char_defs str_defs seg_defs)

text \<open>
  Claim C6, amended: a text that ends with a colon and has at most 8 whitespace-separated
  words has importance at least 1, and its level is H2 unless its lowercased text contains
  \<open>overview of\<close>, \<open>introduction to\<close> or \<open>references\<close>, in which case it is H1.
\<close>

theorem label_importance_and_level:
  assumes "endswith t '':''" and "length (split_ws t) \<le> 8"
  shows "1 \<le> calculate_importance t \<and>
         determine_level t =
           (if list_ex (contains (lower t)) [''overview of'', ''introduction to'', ''references'']
            then ''H1'' else ''H2'')"
  using assms by (simp add: calculate_importance_def determine_level_def Let_def)

theorem label_importance_and_level_witness:
  "endswith ''Name:'' '':'' \<and> length (split_ws ''Name:'') \<le> 8 \<and>
   1 \<le> calculate_importance ''Name:'' \<and> determine_level ''Name:'' = ''H2''"
proof -
  have h1: "endswith ''Name:'' '':''"
    by (simp add: endswith_def)
  have h2: "length (split_ws ''Name:'') \<le> 8"
    by (simp add: split_ws_def char_defs)
  have h3: "\<not> list_ex (contains (lower ''Name:''))
                 [''overview of'', ''introduction to'', ''references'']"
    by (simp add: lower_def char_defs)
  from label_importance_and_level [OF h1 h2] h3
  have "1 \<le> calculate_importance ''Name:'' \<and> determine_level ''Name:'' = ''H2''"
    by simp
  with h1 h2 show ?thesis by simp
qed

section \<open>The relevance score\<close>

lemma ratio_bounds:
  "0 \<le> real (fcard (A |\<inter>| B)) / real (max (fcard A) 1) \<and>
   real (fcard (A |\<inter>| B)) / real (max (fcard A) 1) \<le> 1"
proof -
  have "fcard (A |\<inter>| B) \<le> fcard A"
    by (rule fcard_mono) simp
  then have "fcard (A |\<inter>| B) \<le> max (fcard A) 1"
    by simp
  then show ?thesis by (simp add: divide_le_eq_1)
qed

lemma category_bonus_nonneg: "0 \<le> category_bonus persona triggers terms txt"
  by (simp add: category_bonus_def)

lemma domain_bonus_bounds:
  "0 \<le> get_domain_bonuses persona txt \<and> get_domain_bonuses persona txt \<le> 3 / 10"
proof -
  have "0 \<le> category_bonus persona [''researcher'', ''phd'', ''academic'', ''student''] research_terms txt
          + category_bonus persona [''analyst'', ''investment'', ''business''] business_terms txt
          + category_bonus persona [''student'', ''learner'', ''education''] educational_terms txt"
    by (intro add_nonneg_nonneg category_bonus_nonneg)
  then show ?thesis
    unfolding get_domain_bonuses_def Let_def min_def by auto
qed

text \<open>
  Claim C3: for every section, persona text and persona and job keyword sets, the
  relevance score lies in the closed interval from 0 to 1, and the domain bonus never
  exceeds 0.30, whichever persona trigger categories fire.
\<close>

theorem relevance_score_bounds:
  "0 \<le> calculate_relevance_score persona section persona_keywords job_keywords \<and>
   calculate_relevance_score persona section persona_keywords job_keywords \<le> 1 \<and>
   get_domain_bonuses persona txt \<le> 3 / 10"
proof -
  let ?txt = "lower (sec_text section) @ '' '' @
              lower (case sec_content section of None \<Rightarrow> [] | Some c \<Rightarrow> c)"
  let ?sk = "extract_keywords ?txt"
  let ?p = "real (fcard (persona_keywords |\<inter>| ?sk)) / real (max (fcard persona_keywords) 1)"
  let ?j = "real (fcard (job_keywords |\<inter>| ?sk)) / real (max (fcard job_keywords) 1)"
  have p: "0 \<le> ?p" and j: "0 \<le> ?j"
    using ratio_bounds by blast+
  have b: "0 \<le> get_domain_bonuses persona ?txt"
    using domain_bonus_bounds by blast
  have "0 \<le> 6 / 10 * ?j + 4 / 10 * ?p + get_domain_bonuses persona ?txt"
    using p j b by simp
  then have "0 \<le> calculate_relevance_score persona section persona_keywords job_keywords"
    by (simp add: calculate_relevance_score_def Let_def)
  moreover have "calculate_relevance_score persona section persona_keywords job_keywords \<le> 1"
    by (simp add: calculate_relevance_score_def Let_def)
  ultimately show ?thesis using domain_bonus_bounds by blast
qed

section \<open>The cross-document ranker\<close>

lemma score_sections_eq:
  "score_sections persona pk jk fname secs =
     map (\<lambda>s. \<lparr>rs_document = fname, rs_page = sec_page s, section_title = sec_text s,
                importance_rank = calculate_relevance_score persona s pk jk\<rparr>)
         (filter (\<lambda>s. 1 / 10 < calculate_relevance_score persona s pk jk) secs)"
  by (induction secs) (simp_all add: Let_def)

lemma collect_sections_eq:
  "collect_sections persona pk jk docs =
     concat (map (\<lambda>d. map (\<lambda>s. \<lparr>rs_document = filename d, rs_page = sec_page s,
                                   section_title = sec_text s,
                                   importance_rank = calculate_relevance_score persona s pk jk\<rparr>)
                           (filter (\<lambda>s. 1 / 10 < calculate_relevance_score persona s pk jk)
                                   (c_sections (d_content d))))
                 docs)"
  by (induction docs) (simp_all add: score_sections_eq)

lemma add_rank_numbers_enumerate:
  "add_rank_numbers i xs = map (\<lambda>(j, x). x\<lparr>importance_rank := real (j + 1)\<rparr>) (enumerate i xs)"
  by (induction xs arbitrary: i) simp_all

lemma ranks_add_rank_numbers:
  "map importance_rank (add_rank_numbers i xs) = map real [Suc i..<Suc (i + length xs)]"
proof (induction xs arbitrary: i)
  case Nil
  show ?case by simp
next
  case (Cons x xs)
  have "[Suc i..<Suc (i + length (x # xs))] = Suc i # [Suc (Suc i)..<Suc (i + length (x # xs))]"
    by (rule upt_conv_Cons) simp
  moreover have "Suc (i + length (x # xs)) = Suc (Suc i + length xs)"
    by simp
  ultimately have "[Suc i..<Suc (i + length (x # xs))] = Suc i # [Suc (Suc i)..<Suc (Suc i + length xs)]"
    by (simp only:)
  then show ?case using Cons.IH [of "Suc i"] by (simp only: add_rank_numbers.simps list.map ranked_section.simps) simp
qed

lemma sort_by_rank_desc_sorted:
  "sorted_wrt (\<lambda>x y. importance_rank y \<le> importance_rank x) (sort_by_rank_desc xs)"
proof -
  have "sorted (map (\<lambda>x. - importance_rank x) (sort_by_rank_desc xs))"
    unfolding sort_by_rank_desc_def by (rule sorted_sort_key)
  then show ?thesis by (simp add: sorted_wrt_map)
qed

lemma sort_by_rank_desc_stable:
  "filter (\<lambda>x. importance_rank x = k) (sort_by_rank_desc xs) = filter (\<lambda>x. importance_rank x = k) xs"
  using sort_key_stable [of "\<lambda>x. - importance_rank x" "- k" xs]
  by (simp add: sort_by_rank_desc_def)

text \<open>
  Claim C2: the ranker keeps exactly the sections whose relevance score is strictly greater
  than 0.1, in encounter order (\<open>kept\<close>); the emitted list is \<open>kept\<close> reordered by
  that score, descending, sections of equal score keeping their encounter order, with the
  score field of each overwritten by its 1-based position, so that the ranks read
  1, 2, ..., n.
\<close>

theorem ranker_filters_sorts_and_numbers:
  fixes persona job :: string and docs :: "document list"
  defines "score \<equiv> \<lambda>s. calculate_relevance_score persona s (extract_keywords persona) (extract_keywords job)"
  defines "kept \<equiv> concat (map (\<lambda>d. map (\<lambda>s. \<lparr>rs_document = filename d, rs_page = sec_page s,
                                   section_title = sec_text s, importance_rank = score s\<rparr>)
                           (filter (\<lambda>s. 1 / 10 < score s) (c_sections (d_content d)))) docs)"
  shows "\<exists>sorted_kept.
           mset sorted_kept = mset kept \<and>
           sorted_wrt (\<lambda>x y. importance_rank y \<le> importance_rank x) sorted_kept \<and>
           (\<forall>k. filter (\<lambda>x. importance_rank x = k) sorted_kept = filter (\<lambda>x. importance_rank x = k) kept) \<and>
           extract_relevant_sections persona job docs
             = map (\<lambda>(i, x). x\<lparr>importance_rank := real (i + 1)\<rparr>) (enumerate 0 sorted_kept) \<and>
           map importance_rank (extract_relevant_sections persona job docs)
             = map real [1..<Suc (length kept)]"
proof -
  have k: "collect_sections persona (extract_keywords persona) (extract_keywords job) docs = kept"
    unfolding kept_def score_def by (rule collect_sections_eq)
  have e: "extract_relevant_sections persona job docs = add_rank_numbers 0 (sort_by_rank_desc kept)"
    by (simp add: extract_relevant_sections_def Let_def k)
  have "mset (sort_by_rank_desc kept) = mset kept"
    by (simp add: sort_by_rank_desc_def)
  moreover have "extract_relevant_sections persona job docs
      = map (\<lambda>(i, x). x\<lparr>importance_rank := real (i + 1)\<rparr>) (enumerate 0 (sort_by_rank_desc kept))"
    by (simp only: e add_rank_numbers_enumerate)
  moreover have "map importance_rank (extract_relevant_sections persona job docs)
      = map real [1..<Suc (length kept)]"
    using ranks_add_rank_numbers [of 0 "sort_by_rank_desc kept"]
    by (simp add: e sort_by_rank_desc_def)
  ultimately show ?thesis
    using sort_by_rank_desc_sorted [of kept] sort_by_rank_desc_stable [of _ kept] by blast
qed

section \<open>The records of an outline\<close>

lemma strip_idem: "strip (strip s) = strip s"
proof -
  let ?u = "dropWhile isspace s"
  let ?t = "rev (dropWhile isspace (rev ?u))"
  have u: "?u = ?t @ rev (takeWhile isspace (rev ?u))"
    by (metis rev_append rev_rev_ident takeWhile_dropWhile_id)
  have a: "dropWhile isspace ?t = ?t"
  proof (cases "?t = []")
    case True
    show ?thesis by (simp only: True dropWhile.simps)
  next
    case False
    then have "hd ?t = hd ?u" using u by (metis hd_append2)
    moreover have "?u \<noteq> []"
    proof
      assume e: "?u = []"
      have "?t = []" by (simp only: e rev.simps dropWhile.simps)
      with False show False by blast
    qed
    ultimately have "\<not> isspace (hd ?t)" using hd_dropWhile [of isspace s] by simp
    then show ?thesis by (simp add: dropWhile_eq_self_iff)
  qed
  show ?thesis unfolding strip_def by (simp only: a rev_rev_ident dropWhile_idem)
qed

lemma refine_loop_distinct:
  "distinct (map h_text cleaned) \<Longrightarrow> set (map h_text cleaned) \<subseteq> seen \<Longrightarrow>
   distinct (map h_text (refine_loop seen cleaned secs))"
proof (induction secs arbitrary: seen cleaned)
  case Nil
  then show ?case by simp
next
  case (Cons sec secs)
  let ?t = "strip (sec_text sec)"
  let ?h = "\<lparr>h_level = determine_level ?t, h_text = ?t, h_page = sec_page sec\<rparr>"
  have step: "?t \<notin> seen \<Longrightarrow>
      distinct (map h_text (refine_loop (insert ?t seen) (cleaned @ [?h]) secs))"
  proof -
    assume n: "?t \<notin> seen"
    have "distinct (map h_text (cleaned @ [?h]))" using Cons.prems n by auto
    moreover have "set (map h_text (cleaned @ [?h])) \<subseteq> insert ?t seen" using Cons.prems by auto
    ultimately show ?thesis by (rule Cons.IH)
  qed
  show ?case using Cons.IH [OF Cons.prems] step by (simp add: Let_def)
qed



lemma determine_level_cases: "determine_level t = ''H1'' \<or> determine_level t = ''H2''"
  by (simp add: determine_level_def Let_def)

lemma refine_loop_texts:
  "list_all (\<lambda>h. strip (h_text h) = h_text h \<and> 3 \<le> length (h_text h) \<and> length (h_text h) \<le> 150) cleaned
   \<Longrightarrow> list_all (\<lambda>h. strip (h_text h) = h_text h \<and> 3 \<le> length (h_text h) \<and> length (h_text h) \<le> 150)
         (refine_loop seen cleaned secs)"
  by (induction secs arbitrary: seen cleaned) (simp_all add: Let_def strip_idem)

lemma refine_loop_levels:
  "list_all (\<lambda>h. h_level h = ''H1'' \<or> h_level h = ''H2'') cleaned
   \<Longrightarrow> list_all (\<lambda>h. h_level h = ''H1'' \<or> h_level h = ''H2'') (refine_loop seen cleaned secs)"
proof (induction secs arbitrary: seen cleaned)
  case Nil
  then show ?case by simp
next
  case (Cons sec secs)
  then show ?case using determine_level_cases [of "strip (sec_text sec)"]
    by (simp add: Let_def)
qed

lemma refine_sections_distinct: "distinct (map h_text (refine_sections secs))"
  unfolding refine_sections_def by (rule refine_loop_distinct) simp_all

lemma fallback_loop_levels: "list_all (\<lambda>h. h_level h = ''H2'') (fallback_loop ls)"
  by (induction ls) (simp_all add: Let_def)

lemma rebuild_heading: "map (\<lambda>h. \<lparr>h_level = h_level h, h_text = h_text h, h_page = h_page h\<rparr>) hs = hs"
  by (induction hs) simp_all

lemma extract_structure_outline:
  assumes "fst (extract_structure api pdf_path s) = Inr r"
  shows "r_outline r = [] \<or>
         (refine_sections (extract_sections_by_formatting api (snd (load_pdf api pdf_path s))) \<noteq> [] \<and>
          r_outline r = refine_sections (extract_sections_by_formatting api (snd (load_pdf api pdf_path s)))) \<or>
         (refine_sections (extract_sections_by_formatting api (snd (load_pdf api pdf_path s))) = [] \<and>
          (\<exists>txt. r_outline r = fallback_extract_labels txt))"
  using assms
  by (auto simp: extract_structure_def Let_def rebuild_heading split: prod.splits if_splits sum.splits)

text \<open>
  Claim C4 as stated fails on the fallback path: a form whose first page reads \<open>ID:\<close>
  twice gets an outline of two records with the same text, of two characters.
\<close>

theorem fallback_outline_counterexample:
  "fst (extract_structure example_api ''input/form.pdf'' None)
     = Inr \<lparr>r_title = ''ID'',
            r_outline = [\<lparr>h_level = ''H2'', h_text = ''ID'', h_page = 1\<rparr>,
                         \<lparr>h_level = ''H2'', h_text = ''ID'', h_page = 1\<rparr>],
            r_error = None\<rparr> \<and>
   \<not> distinct (map h_text [\<lparr>h_level = ''H2'', h_text = ''ID'', h_page = 1\<rparr>,
                              \<lparr>h_level = ''H2'', h_text = ''ID'', h_page = 1\<rparr>]) \<and>
   length ''ID'' < 3"
  by (simp add: api_defs title_defs char_defs str_defs seg_defs)

text \<open>
  Claim C4, amended: every record of an emitted outline has level H1 or H2; when the
  Segmenter's output for the document is not empty, so that the fallback label scan is not
  used, every record's text is trimmed and between 3 and 150 characters long, and no two
  records of the outline have the same text.
\<close>

theorem outline_records:
  assumes "fst (extract_structure api pdf_path s) = Inr r"
  shows "list_all (\<lambda>h. h_level h = ''H1'' \<or> h_level h = ''H2'') (r_outline r) \<and>
         (refine_sections (extract_sections_by_formatting api (snd (load_pdf api pdf_path s))) \<noteq> [] \<longrightarrow>
            list_all (\<lambda>h. strip (h_text h) = h_text h \<and> 3 \<le> length (h_text h) \<and> length (h_text h) \<le> 150)
              (r_outline r) \<and>
            distinct (map h_text (r_outline r)))"
proof -
  let ?ref = "refine_sections (extract_sections_by_formatting api (snd (load_pdf api pdf_path s)))"
  have lv: "list_all (\<lambda>h. h_level h = ''H1'' \<or> h_level h = ''H2'') ?ref"
    unfolding refine_sections_def by (rule refine_loop_levels) simp
  have tx: "list_all (\<lambda>h. strip (h_text h) = h_text h \<and> 3 \<le> length (h_text h) \<and> length (h_text h) \<le> 150) ?ref"
    unfolding refine_sections_def by (rule refine_loop_texts) simp
  have fb: "list_all (\<lambda>h. h_level h = ''H1'' \<or> h_level h = ''H2'') (fallback_extract_labels ptext)" for ptext
    using fallback_loop_levels [of "split_lines ptext"]
    by (simp add: fallback_extract_labels_def list_all_iff)
  from extract_structure_outline [OF assms]
  consider "r_outline r = []" | "?ref \<noteq> []" "r_outline r = ?ref"
    | ptext where "?ref = []" "r_outline r = fallback_extract_labels ptext"
    by blast
  then show ?thesis
  proof cases
    case 1
    then show ?thesis by simp
  next
    case 2
    then show ?thesis using lv tx refine_sections_distinct [of "extract_sections_by_formatting api (snd (load_pdf api pdf_path s))"]
      by simp
  next
    case 3
    then show ?thesis using fb [of ptext] by simp
  qed
qed

theorem outline_records_witness:
  "fst (extract_structure example_api ''input/report.pdf'' None)
     = Inr \<lparr>r_title = ''Quarterly Report 2024'',
            r_outline = [\<lparr>h_level = ''H2'', h_text = ''OVERVIEW'', h_page = 1\<rparr>,
                         \<lparr>h_level = ''H2'', h_text = ''Name:'', h_page = 1\<rparr>],
            r_error = None\<rparr> \<and>
   refine_sections (extract_sections_by_formatting example_api
                      (snd (load_pdf example_api ''input/report.pdf'' None))) \<noteq> [] \<and>
   list_all (\<lambda>h. h_level h = ''H1'' \<or> h_level h = ''H2'')
     [\<lparr>h_level = ''H2'', h_text = ''OVERVIEW'', h_page = 1\<rparr>,
      \<lparr>h_level = ''H2'', h_text = ''Name:'', h_page = 1\<rparr>] \<and>
   list_all (\<lambda>h. strip (h_text h) = h_text h \<and> 3 \<le> length (h_text h) \<and> length (h_text h) \<le> 150)
     [\<lparr>h_level = ''H2'', h_text = ''OVERVIEW'', h_page = 1\<rparr>,
      \<lparr>h_level = ''H2'', h_text = ''Name:'', h_page = 1\<rparr>] \<and>
   distinct (map h_text [\<lparr>h_level = ''H2'', h_text = ''OVERVIEW'', h_page = 1\<rparr>,
                          \<lparr>h_level = ''H2'', h_text = ''Name:'', h_page = 1\<rparr>])"
proof -
  have h: "fst (extract_structure example_api ''input/report.pdf'' None)
     = Inr \<lparr>r_title = ''Quarterly Report 2024'',
            r_outline = [\<lparr>h_level = ''H2'', h_text = ''OVERVIEW'', h_page = 1\<rparr>,
                         \<lparr>h_level = ''H2'', h_text = ''Name:'', h_page = 1\<rparr>],
            r_error = None\<rparr>"
    by (simp add: api_defs title_defs char_defs str_defs seg_defs)
  have ne: "refine_sections (extract_sections_by_formatting example_api
                      (snd (load_pdf example_api ''input/report.pdf'' None))) \<noteq> []"
    by (simp add: api_defs char_defs str_defs seg_defs)
  from outline_records [OF h] ne h show ?thesis by simp
qed

section \<open>Title resolution\<close>

lemma title_loop_all_skipped:
  "list_all (\<lambda>l. list_ex (startswith (lower l)) title_skip_prefixes) ls \<Longrightarrow> title_loop i ls = []"
  by (induction ls arbitrary: i) simp_all

text \<open>
  Claim C7 as stated fails: the report has an empty metadata title, no title candidates,
  a first page without promotional keywords and a non-empty outline, and its title is the
  first line of the page, not the first outline entry. The keywords only add to a line's
  score; any line the scan accepts becomes the title.
\<close>

theorem title_scan_counterexample:
  "get_document_info example_api (snd (load_pdf example_api ''input/report.pdf'' None)) ''title'' = Some [] \<and>
   find_title_candidates example_api (snd (load_pdf example_api ''input/report.pdf'' None)) = [] \<and>
   extract_page_text example_api 0 (snd (load_pdf example_api ''input/report.pdf'' None))
     = Inr ''Quarterly Report 2024\<newline>OVERVIEW\<newline>Revenue grew'' \<and>
   \<not> list_ex (contains (lower ''Quarterly Report 2024\<newline>OVERVIEW\<newline>Revenue grew'')) promo_words \<and>
   fst (extract_structure example_api ''input/report.pdf'' None)
     = Inr \<lparr>r_title = ''Quarterly Report 2024'',
            r_outline = [\<lparr>h_level = ''H2'', h_text = ''OVERVIEW'', h_page = 1\<rparr>,
                         \<lparr>h_level = ''H2'', h_text = ''Name:'', h_page = 1\<rparr>],
            r_error = None\<rparr> \<and>
   ''Quarterly Report 2024'' \<noteq> ''OVERVIEW''"
  by (simp add: api_defs title_defs char_defs str_defs seg_defs)

text \<open>
  Claim C7, amended: when the metadata title is the empty string, the extractor has no
  title candidates, and each of the first 15 lines of the first page whose trimmed length
  is between 6 and 199 starts, lowercased, with one of the skipped prefixes (so that the
  scan of the page accepts no line), and the outline is not empty, the resolved title is
  the text of the first outline entry.
\<close>

theorem title_falls_back_to_outline:
  assumes "get_document_info api s ''title'' = Some []"
    and "find_title_candidates api s = []"
    and "extract_page_text api 0 s = Inr first_page_text"
    and "list_all (\<lambda>l. list_ex (startswith (lower (strip l))) title_skip_prefixes)
           (take 15 (filter (\<lambda>l. 5 < length (strip l) \<and> length (strip l) < 200)
                            (split_lines first_page_text)))"
    and "outline \<noteq> []"
  shows "extract_title api s outline = Inr (h_text (hd outline))"
proof -
  let ?ls = "filter (\<lambda>l. 5 < length (strip l) \<and> length (strip l) < 200) (split_lines first_page_text)"
  have "list_all (\<lambda>l. list_ex (startswith (lower l)) title_skip_prefixes) (take 15 (map strip ?ls))"
    using assms(4) by (simp add: take_map list_all_iff)
  then have "title_loop 0 (take 15 (map strip ?ls)) = []"
    by (rule title_loop_all_skipped)
  then have t: "extract_title_from_text first_page_text = []"
    by (simp add: extract_title_from_text_def Let_def)
  obtain h hs where o: "outline = h # hs"
    using assms(5) by (cases outline) auto
  show ?thesis
    using assms(1-3) t o by (simp add: extract_title_def Let_def strip_def)
qed

theorem title_falls_back_to_outline_witness:
  "get_document_info example_api (Some syllabus_doc) ''title'' = Some [] \<and>
   find_title_candidates example_api (Some syllabus_doc) = [] \<and>
   extract_page_text example_api 0 (Some syllabus_doc) = Inr ''Page 1\<newline>text'' \<and>
   list_all (\<lambda>l. list_ex (startswith (lower (strip l))) title_skip_prefixes)
     (take 15 (filter (\<lambda>l. 5 < length (strip l) \<and> length (strip l) < 200)
                      (split_lines ''Page 1\<newline>text''))) \<and>
   extract_title example_api (Some syllabus_doc)
     [\<lparr>h_level = ''H2'', h_text = ''SYLLABUS'', h_page = 1\<rparr>] = Inr ''SYLLABUS''"
proof -
  have a: "get_document_info example_api (Some syllabus_doc) ''title'' = Some []"
    by (simp add: api_defs)
  have b: "find_title_candidates example_api (Some syllabus_doc) = []"
    by (simp add: api_defs)
  have c: "extract_page_text example_api 0 (Some syllabus_doc) = Inr ''Page 1\<newline>text''"
    by (simp add: api_defs)
  have d: "list_all (\<lambda>l. list_ex (startswith (lower (strip l))) title_skip_prefixes)
     (take 15 (filter (\<lambda>l. 5 < length (strip l) \<and> length (strip l) < 200)
                      (split_lines ''Page 1\<newline>text'')))"
    by (simp add: title_skip_prefixes_def char_defs str_defs)
  have e: "[\<lparr>h_level = ''H2'', h_text = ''SYLLABUS'', h_page = 1\<rparr>] \<noteq> []"
    by simp
  from title_falls_back_to_outline [OF a b c d e] a b c d show ?thesis by simp
qed

section \<open>Section content expansion\<close>

lemma find_start_append:
  "list_all (\<lambda>l. \<not> contains (lower l) (lower title)) pre \<Longrightarrow>
   contains (lower start) (lower title) \<Longrightarrow>
   find_start title i (pre @ start # rest) = Some (i + length pre)"
  by (induction pre arbitrary: i) simp_all

lemma find_start_none:
  "list_all (\<lambda>l. \<not> contains (lower l) (lower title)) ls \<Longrightarrow> find_start title i ls = None"
  by (induction ls arbitrary: i) simp_all

lemma find_end_append:
  "list_all (\<lambda>l. \<not> (3 < length (strip l) \<and> looks_like_heading (strip l))) mid \<Longrightarrow>
   find_end i (mid @ rest) = find_end (i + length mid) rest"
proof (induction mid arbitrary: i)
  case Nil
  show ?case by simp
next
  case (Cons l mid)
  from Cons.prems have a: "\<not> (3 < length (strip l) \<and> looks_like_heading (strip l))"
    and b: "list_all (\<lambda>l. \<not> (3 < length (strip l) \<and> looks_like_heading (strip l))) mid"
    by simp_all
  have "find_end i ((l # mid) @ rest) = find_end (Suc i) (mid @ rest)"
    unfolding append_Cons find_end.simps Let_def using a by (rule if_not_P)
  also have "\<dots> = find_end (Suc i + length mid) rest"
    by (rule Cons.IH [OF b])
  finally show ?case by simp
qed

lemma section_content_not_found:
  "list_all (\<lambda>l. \<not> contains (lower l) (lower title)) (split_lines page_text) \<Longrightarrow>
   extract_section_content page_text title = []"
  by (simp add: extract_section_content_def find_start_none)

text \<open>
  Claim C9 as stated fails: a line of 151 capital letters has the all-caps shape and is
  longer than 3 characters, and it does not end the content span; the span runs on to the
  end of the page. \<open>looks_like_heading\<close> refuses a text of more than 150 characters before
  it tries the shapes.
\<close>

theorem long_heading_counterexample:
  "3 < length (strip (replicate 151 CHR ''A'')) \<and>
   all_caps (strip (replicate 151 CHR ''A'')) \<and>
   extract_section_content (''Intro\<newline>'' @ replicate 151 CHR ''A'' @ ''\<newline>body'') ''Intro''
     = replicate 151 CHR ''A'' @ ''\<newline>body''"
  by code_simp

text \<open>
  Claim C9, amended: the start line is the first line of the page whose lowercased text
  contains the lowercased title; the end boundary is the first later line whose stripped
  text is more than 3 and at most 150 characters long and matches one of the three
  patterns (a numbered heading, capital letters and whitespace only, or one or more
  capitalised words); the content is the lines strictly between the two (up to the end of
  the page when there is no boundary), joined by newlines and stripped of surrounding
  whitespace.
\<close>

theorem section_content_span:
  assumes "split_lines page_text = pre @ start # mid @ rest"
    and "list_all (\<lambda>l. \<not> contains (lower l) (lower title)) pre"
    and "contains (lower start) (lower title)"
    and "list_all (\<lambda>l. \<not> (3 < length (strip l) \<and> length (strip l) \<le> 150 \<and>
                            (numbered (strip l) \<or> all_caps (strip l) \<or> title_case (strip l)))) mid"
    and "case rest of
           [] \<Rightarrow> True
         | l # _ \<Rightarrow> 3 < length (strip l) \<and> length (strip l) \<le> 150 \<and>
                    (numbered (strip l) \<or> all_caps (strip l) \<or> title_case (strip l))"
  shows "extract_section_content page_text title = strip (join [newline] mid)"
proof -
  have s: "find_start title 0 (split_lines page_text) = Some (length pre)"
    using find_start_append [OF assms(2,3), of 0 "mid @ rest"] by (simp add: assms(1))
  have d: "drop (length pre + 1) (split_lines page_text) = mid @ rest"
    by (simp add: assms(1))
  have m: "list_all (\<lambda>l. \<not> (3 < length (strip l) \<and> looks_like_heading (strip l))) mid"
    using assms(4) by (auto simp: looks_like_heading_def list_all_iff)
  have e: "find_end (length pre + 1) (mid @ rest) = find_end (length pre + 1 + length mid) rest"
    by (rule find_end_append [OF m])
  have n: "(case find_end (length pre + 1 + length mid) rest of
              None \<Rightarrow> length (split_lines page_text) | Some i \<Rightarrow> i) - (length pre + 1)
           = length mid"
  proof (cases rest)
    case Nil
    then show ?thesis by (simp add: assms(1))
  next
    case (Cons l ls)
    then have "3 < length (strip l) \<and> looks_like_heading (strip l)"
      using assms(5) by (auto simp: looks_like_heading_def)
    then show ?thesis using Cons by (simp add: Let_def)
  qed
  show ?thesis
    unfolding extract_section_content_def Let_def
    by (simp only: s option.case d e n) simp
qed

theorem section_content_span_witness:
  "split_lines ''Intro\<newline>a  \<newline>b\<newline>Next Part\<newline>c'' = [] @ ''Intro'' # [''a  '', ''b''] @ [''Next Part'', ''c''] \<and>
   contains (lower ''Intro'') (lower ''intro'') \<and>
   list_all (\<lambda>l. \<not> (3 < length (strip l) \<and> length (strip l) \<le> 150 \<and>
                     (numbered (strip l) \<or> all_caps (strip l) \<or> title_case (strip l)))) [''a  '', ''b''] \<and>
   3 < length (strip ''Next Part'') \<and> length (strip ''Next Part'') \<le> 150 \<and> title_case (strip ''Next Part'') \<and>
   extract_section_content ''Intro\<newline>a  \<newline>b\<newline>Next Part\<newline>c'' ''intro'' = ''a  \<newline>b''"
proof -
  have a: "split_lines ''Intro\<newline>a  \<newline>b\<newline>Next Part\<newline>c'' = [] @ ''Intro'' # [''a  '', ''b''] @ [''Next Part'', ''c'']"
    by (simp add: char_defs str_defs)
  have b: "list_all (\<lambda>l. \<not> contains (lower l) (lower ''intro'')) []"
    by simp
  have c: "contains (lower ''Intro'') (lower ''intro'')"
    by (simp add: char_defs str_defs)
  have d: "list_all (\<lambda>l. \<not> (3 < length (strip l) \<and> length (strip l) \<le> 150 \<and>
                     (numbered (strip l) \<or> all_caps (strip l) \<or> title_case (strip l)))) [''a  '', ''b'']"
    by (simp add: char_defs str_defs)
  have e: "3 < length (strip ''Next Part'') \<and> length (strip ''Next Part'') \<le> 150 \<and> title_case (strip ''Next Part'')"
    by (simp add: span_defs char_defs str_defs)
  then have e': "case [''Next Part'', ''c''] of
           [] \<Rightarrow> True
         | l # _ \<Rightarrow> 3 < length (strip l) \<and> length (strip l) \<le> 150 \<and>
                    (numbered (strip l) \<or> all_caps (strip l) \<or> title_case (strip l))"
    by simp
  have f: "strip (join [newline] [''a  '', ''b'']) = ''a  \<newline>b''"
    by (simp add: char_defs str_defs)
  from section_content_span [OF a b c d e'] a c d e f show ?thesis by simp
qed

section \<open>Load failures and exceptions\<close>

text \<open>
  Claim C8: when the loader reports that it cannot open a document, the single-document
  pipeline returns the structure with title \<open>Error\<close>, an empty outline and the reason, and
  the loop of the multi-document pipeline goes on to the remaining documents with the
  list of documents unchanged. The loop does the same when the document loads and
  extracting its structure or its detailed content raises: the exception is caught at the
  document, and the loop itself returns a list of documents in every case.
\<close>

theorem failing_document_is_skipped:
  "(\<not> fst (load_pdf api pdf_file p) \<longrightarrow>
      fst (extract_structure api pdf_file p)
        = Inr \<lparr>r_title = ''Error'', r_outline = [], r_error = Some ''Failed to load PDF''\<rparr> \<and>
      extract_document_contents_loop api documents (pdf_file # rest) (p, q)
        = extract_document_contents_loop api documents rest (snd (load_pdf api pdf_file p), q)) \<and>
   (fst (load_pdf api pdf_file p) \<and>
    (isl (fst (extract_structure api pdf_file q)) \<or>
     isl (extract_detailed_content api (snd (load_pdf api pdf_file p)))) \<longrightarrow>
      extract_document_contents_loop api documents (pdf_file # rest) (p, q)
        = extract_document_contents_loop api documents rest
            (snd (load_pdf api pdf_file p), snd (extract_structure api pdf_file q)))"
proof -
  obtain ok p1 where l: "load_pdf api pdf_file p = (ok, p1)"
    by (cases "load_pdf api pdf_file p")
  obtain rs q1 where e: "extract_structure api pdf_file q = (rs, q1)"
    by (cases "extract_structure api pdf_file q")
  have a: "\<not> ok \<Longrightarrow> fst (extract_structure api pdf_file p)
        = Inr \<lparr>r_title = ''Error'', r_outline = [], r_error = Some ''Failed to load PDF''\<rparr>"
    using l by (simp add: extract_structure_def)
  have b: "\<not> ok \<Longrightarrow> extract_document_contents_loop api documents (pdf_file # rest) (p, q)
        = extract_document_contents_loop api documents rest (p1, q)"
    using l by simp
  have c: "ok \<Longrightarrow> isl rs \<or> isl (extract_detailed_content api p1) \<Longrightarrow>
      extract_document_contents_loop api documents (pdf_file # rest) (p, q)
        = extract_document_contents_loop api documents rest (p1, q1)"
    using l e by (cases rs; cases "extract_detailed_content api p1") simp_all
  show ?thesis using a b c by (simp add: l e)
qed


theorem failing_document_is_skipped_witness:
  "\<not> fst (load_pdf example_api ''input/missing.pdf'' None) \<and>
   fst (extract_structure example_api ''input/missing.pdf'' None)
     = Inr \<lparr>r_title = ''Error'', r_outline = [], r_error = Some ''Failed to load PDF''\<rparr> \<and>
   fst (load_pdf example_api ''input/blank.pdf'' None) \<and>
   isl (fst (extract_structure example_api ''input/blank.pdf'' None)) \<and>
   fst (load_pdf example_api ''input/badpage.pdf'' None) \<and>
   isl (extract_detailed_content example_api (snd (load_pdf example_api ''input/badpage.pdf'' None))) \<and>
   map filename (fst (extract_document_contents example_api
     [''input/report.pdf'', ''input/missing.pdf'', ''input/blank.pdf'', ''input/badpage.pdf'',
      ''input/form.pdf''] (None, None)))
     = [''report.pdf'', ''form.pdf'']"
proof -
  have a: "\<not> fst (load_pdf example_api ''input/missing.pdf'' None)"
    by (simp add: api_defs)
  from failing_document_is_skipped [of example_api "''input/missing.pdf''" None] a
  have b: "fst (extract_structure example_api ''input/missing.pdf'' None)
     = Inr \<lparr>r_title = ''Error'', r_outline = [], r_error = Some ''Failed to load PDF''\<rparr>"
    by blast
  have c: "fst (load_pdf example_api ''input/blank.pdf'' None) \<and>
           isl (fst (extract_structure example_api ''input/blank.pdf'' None))"
    by (simp add: api_defs title_defs char_defs str_defs seg_defs)
  have d: "fst (load_pdf example_api ''input/badpage.pdf'' None) \<and>
     isl (extract_detailed_content example_api (snd (load_pdf example_api ''input/badpage.pdf'' None)))"
    by (simp add: api_defs doc_defs)
  have e: "map filename (fst (extract_document_contents example_api
     [''input/report.pdf'', ''input/missing.pdf'', ''input/blank.pdf'', ''input/badpage.pdf'',
      ''input/form.pdf''] (None, None)))
     = [''report.pdf'', ''form.pdf'']"
    by (simp add: api_defs doc_defs title_defs span_defs char_defs str_defs seg_defs)
  from a b c d e show ?thesis by simp
qed

section \<open>What the Relevance Pipeline scores\<close>








text \<open>
  The scorer reads a document's file name and its enriched sections only: replacing the
  outlines and titles of the documents, which is where the Segmenter's output is kept,
  does not change the ranking.
\<close>

lemma relevance_ignores_outline:
  "extract_relevant_sections persona job (map (\<lambda>d. d\<lparr>d_outline := ol d, d_title := tt d\<rparr>) docs)
   = extract_relevant_sections persona job docs"
  by (simp add: extract_relevant_sections_def Let_def collect_sections_eq comp_def)












text \<open>
  A candidate whose page lies beyond the last page of the document gets no content.
\<close>

lemma candidate_beyond_last_page:
  "enrich_section example_api (Some noisy_doc) \<lparr>sec_text = ''Appendix'', sec_page = 5\<rparr>
     = Inr \<lparr>sec_text = ''Appendix'', sec_page = 5, sec_content = None\<rparr>"
  by (simp add: enrich_section_def example_api_def table_processor_def noisy_doc_def)




section \<open>Determinism of the Outline Pipeline\<close>

text \<open>
  Claim C10: the result of the Outline Pipeline depends on the processor's state only
  through what the loader answers once the document is loaded. Run from two states of the
  processor in which the loader gives the same answers (whether the document loads, its
  heading candidates, the text of its first page, its metadata title and its title
  candidates), the pipeline gives the same result; in particular a second run, from the
  state the first run left, repeats the first.
\<close>

theorem outline_pipeline_deterministic:
  assumes "fst (load_pdf api pdf_path s) = fst (load_pdf api pdf_path s')"
    and "fst (load_pdf api pdf_path s) \<Longrightarrow>
           extract_sections_by_formatting api (snd (load_pdf api pdf_path s))
             = extract_sections_by_formatting api (snd (load_pdf api pdf_path s'))"
    and "fst (load_pdf api pdf_path s) \<Longrightarrow>
           extract_page_text api 0 (snd (load_pdf api pdf_path s))
             = extract_page_text api 0 (snd (load_pdf api pdf_path s'))"
    and "fst (load_pdf api pdf_path s) \<Longrightarrow>
           get_document_info api (snd (load_pdf api pdf_path s)) ''title''
             = get_document_info api (snd (load_pdf api pdf_path s')) ''title''"
    and "fst (load_pdf api pdf_path s) \<Longrightarrow>
           find_title_candidates api (snd (load_pdf api pdf_path s))
             = find_title_candidates api (snd (load_pdf api pdf_path s'))"
  shows "fst (extract_structure api pdf_path s) = fst (extract_structure api pdf_path s')"
proof -
  obtain ok s1 where l: "load_pdf api pdf_path s = (ok, s1)"
    by (cases "load_pdf api pdf_path s")
  obtain ok' s1' where l': "load_pdf api pdf_path s' = (ok', s1')"
    by (cases "load_pdf api pdf_path s'")
  have ok: "ok' = ok"
    using assms(1) l l' by simp
  show ?thesis
  proof (cases ok)
    case False
    then show ?thesis using l l' ok by (simp add: extract_structure_def)
  next
    case True
    have a: "extract_sections_by_formatting api s1' = extract_sections_by_formatting api s1"
      and b: "extract_page_text api 0 s1' = extract_page_text api 0 s1"
      and c: "get_document_info api s1' ''title'' = get_document_info api s1 ''title''"
      and d: "find_title_candidates api s1' = find_title_candidates api s1"
      using assms(2-5) l l' True by simp_all
    have t: "extract_title api s1' outline = extract_title api s1 outline" for outline
      by (simp only: extract_title_def Let_def b c d)
    have "fst (extract_structure api pdf_path s') = fst (extract_structure api pdf_path s)"
      unfolding extract_structure_def l l' ok
      by (simp only: a b t prod.case) (simp add: Let_def split: sum.splits)
    then show ?thesis by simp
  qed
qed

theorem outline_pipeline_deterministic_witness:
  "fst (load_pdf example_api ''input/report.pdf'' (Some form_doc)) \<and>
   fst (load_pdf example_api ''input/report.pdf''
          (snd (extract_structure example_api ''input/report.pdf'' (Some form_doc)))) \<and>
   fst (extract_structure example_api ''input/report.pdf'' (Some form_doc))
     = fst (extract_structure example_api ''input/report.pdf''
              (snd (extract_structure example_api ''input/report.pdf'' (Some form_doc))))"
proof -
  let ?s = "Some form_doc"
  let ?s' = "snd (extract_structure example_api ''input/report.pdf'' (Some form_doc))"
  have l: "load_pdf example_api ''input/report.pdf'' ?s = (True, Some report_doc)"
    by (simp add: example_api_def table_processor_def example_files_def)
  have l': "load_pdf example_api ''input/report.pdf'' ?s' = (True, Some report_doc)"
    by (simp add: example_api_def table_processor_def example_files_def)
  from outline_pipeline_deterministic [of example_api "''input/report.pdf''" ?s ?s']
  have "fst (extract_structure example_api ''input/report.pdf'' ?s)
          = fst (extract_structure example_api ''input/report.pdf'' ?s')"
    by (simp add: l l')
  then show ?thesis by (simp add: l l')
qed

end
